theory Spec2Isabelle
  imports Main
begin

section \<open>The glidein frontend: data model\<close>

text \<open>
  The development embeds \<^verbatim>\<open>src/frontend/glideinFrontend.py\<close> (Python 2). Exceptions are
  values of the type \<open>exn\<close>; a function that can raise returns \<open>exn + 'a\<close> together with
  the world it leaves behind. Python integers are unbounded, hence \<open>int\<close>.
\<close>

datatype exn =
    KeyboardInterrupt
  | KeyError string
  | RuntimeError string
  | AttributeError
  | IOError
  | OtherError string

text \<open>Values that come out of the configuration and are handed on unread.\<close>

datatype pyval =
    PStr string
  | PInt int
  | PList "string list"
  | PDict "(string \<times> string) list"

text \<open>
  The lines the program writes to its two log streams, one constructor per format string
  of the source, with the arguments of the format. The traceback text of an exception is
  represented by the exception itself.
\<close>

datatype log_msg =
    Match
  | Advertize string int
  | Advertize_failed string int
  | Starting_up
  | Iteration_at string
  | Sleep
  | Received_signal_exit
  | Exception_at string exn
  | Deadvertize_my_ads
  | Failed_to_deadvertize

text \<open>The arguments of one call of \<^verbatim>\<open>glideinFrontendInterface.advertizeWork\<close>.\<close>

record request =
  req_factory_pool :: pyval
  req_frontend_name :: pyval
  req_request_name :: string
  req_glidename :: string
  req_min_idle :: int
  req_params :: pyval
  req_monitors :: "(string \<times> int) list"

text \<open>A file of the file system: its content and the process holding its \<^verbatim>\<open>flock\<close>, if any.\<close>

record fsfile =
  content :: string
  locked_by :: "nat option"

text \<open>
  Everything the program can change or depends on: the file system (the files that exist,
  which the process can open, and the paths at which it can create a file: the directory
  is there and can be written), the lines written to the activity and the warning stream,
  the calls made to \<^verbatim>\<open>advertizeWork\<close> and to \<^verbatim>\<open>deadvertizeAllWork\<close> (in order, whether
  or not the call raised), and the number of readings of \<^verbatim>\<open>time.ctime()\<close> taken so far.
\<close>

record world =
  files :: "string \<rightharpoonup> fsfile"
  creatable :: "string \<Rightarrow> bool"
  activity_log :: "log_msg list"
  warning_log :: "log_msg list"
  advertized :: "request list"
  deadvertized :: "(pyval \<times> pyval) list"
  clock :: nat

text \<open>
  The collaborators of one pass (modules \<^verbatim>\<open>glideinFrontendInterface\<close> and
  \<^verbatim>\<open>glideinFrontendLib\<close>, which are not part of the source under verification) are
  parameters: each either raises or returns. The glidein dictionary \<open>'g\<close> and the queue
  dictionaries \<open>'q\<close> are opaque to the frontend. A Python dictionary of counts is an
  association list: \<^verbatim>\<open>d.keys()\<close> is \<open>map fst d\<close> and \<^verbatim>\<open>d[k]\<close> is \<open>map_of d k\<close>, raising
  \<^verbatim>\<open>KeyError\<close> on \<open>None\<close>.
\<close>

record ('g, 'q) collaborators =
  findGlideins :: "pyval \<Rightarrow> exn + 'g"
  getIdleCondorQ :: "pyval \<Rightarrow> pyval \<Rightarrow> exn + 'q"
  getRunningCondorQ :: "pyval \<Rightarrow> pyval \<Rightarrow> exn + 'q"
  countMatch :: "pyval \<Rightarrow> 'q \<Rightarrow> 'g \<Rightarrow> exn + (string \<times> int) list"
  advertizeWork :: "request \<Rightarrow> exn option"

section \<open>Logging\<close>

text \<open>
  Modelled from the spec: \<^verbatim>\<open>logSupport.DayLogFile\<close> is missing from the source. Its
  \<^verbatim>\<open>write\<close> appends one line to the stream; constructing the object only makes a handle
  and writes nothing.
\<close>

definition activity_write :: "log_msg \<Rightarrow> world \<Rightarrow> world" where
  "activity_write msg w = w\<lparr>activity_log := activity_log w @ [msg]\<rparr>"

definition warning_write :: "log_msg \<Rightarrow> world \<Rightarrow> world" where
  "warning_write msg w = w\<lparr>warning_log := warning_log w @ [msg]\<rparr>"

section \<open>One pass: \<^verbatim>\<open>iterate_one\<close>\<close>

text \<open>Lines 47 to 53: the demand sizing.\<close>

definition glidein_min_idle :: "int \<Rightarrow> int \<Rightarrow> int \<Rightarrow> int" where
  "glidein_min_idle idle_jobs reserve_idle max_idle =
     (if idle_jobs > 0
      then (let m = idle_jobs + reserve_idle in if m > max_idle then max_idle else m)
      else 0)"

text \<open>Lines 57 and 58: the monitors and the arguments of the advertise call.\<close>

definition make_request ::
  "pyval \<Rightarrow> pyval \<Rightarrow> int \<Rightarrow> int \<Rightarrow> pyval \<Rightarrow> string \<Rightarrow> int \<Rightarrow> int \<Rightarrow> request" where
  "make_request frontend_name factory_pool max_idle reserve_idle glidein_params
       glidename idle_jobs running_jobs =
     \<lparr>req_factory_pool = factory_pool,
      req_frontend_name = frontend_name,
      req_request_name = glidename,
      req_glidename = glidename,
      req_min_idle = glidein_min_idle idle_jobs reserve_idle max_idle,
      req_params = glidein_params,
      req_monitors = [(''Idle'', idle_jobs), (''Running'', running_jobs)]\<rparr>"

text \<open>
  Lines 41 to 60: the loop over the keys of the idle counts. Both subscripts raise
  \<^verbatim>\<open>KeyError\<close> on a missing key, outside the \<^verbatim>\<open>try\<close>; the bare \<^verbatim>\<open>except\<close> around the
  advertise call catches every exception.
\<close>

fun for_glidename ::
  "('g, 'q) collaborators \<Rightarrow> pyval \<Rightarrow> pyval \<Rightarrow> int \<Rightarrow> int \<Rightarrow> pyval \<Rightarrow>
   (string \<times> int) list \<Rightarrow> (string \<times> int) list \<Rightarrow> string list \<Rightarrow> world \<Rightarrow> (exn + unit) \<times> world" where
  "for_glidename col frontend_name factory_pool max_idle reserve_idle glidein_params
       count_glideins_idle count_glideins_running [] w = (Inr (), w)"
| "for_glidename col frontend_name factory_pool max_idle reserve_idle glidein_params
       count_glideins_idle count_glideins_running (glidename # rest) w =
     (case map_of count_glideins_idle glidename of
        None \<Rightarrow> (Inl (KeyError glidename), w)
      | Some idle_jobs \<Rightarrow>
          (case map_of count_glideins_running glidename of
             None \<Rightarrow> (Inl (KeyError glidename), w)
           | Some running_jobs \<Rightarrow>
               (let r = make_request frontend_name factory_pool max_idle reserve_idle
                          glidein_params glidename idle_jobs running_jobs;
                    w1 = activity_write (Advertize (req_request_name r) (req_min_idle r)) w;
                    w2 = w1\<lparr>advertized := advertized w1 @ [r]\<rparr>;
                    w3 = (case advertizeWork col r of
                            None \<Rightarrow> w2
                          | Some e \<Rightarrow>
                              warning_write
                                (Advertize_failed (req_request_name r) (req_min_idle r)) w2)
                in for_glidename col frontend_name factory_pool max_idle reserve_idle
                     glidein_params count_glideins_idle count_glideins_running rest w3)))"

text \<open>Lines 28 to 62.\<close>

definition iterate_one ::
  "('g, 'q) collaborators \<Rightarrow> pyval \<Rightarrow> pyval \<Rightarrow> pyval \<Rightarrow> pyval \<Rightarrow> pyval \<Rightarrow> int \<Rightarrow> int \<Rightarrow>
   pyval \<Rightarrow> world \<Rightarrow> (exn + unit) \<times> world" where
  "iterate_one col frontend_name factory_pool schedd_names job_constraint match_str
       max_idle reserve_idle glidein_params w =
     (case findGlideins col factory_pool of
        Inl e \<Rightarrow> (Inl e, w)
      | Inr glidein_dict \<Rightarrow>
     (case getIdleCondorQ col schedd_names job_constraint of
        Inl e \<Rightarrow> (Inl e, w)
      | Inr condorq_dict_idle \<Rightarrow>
     (case getRunningCondorQ col schedd_names job_constraint of
        Inl e \<Rightarrow> (Inl e, w)
      | Inr condorq_dict_running \<Rightarrow>
     (let w1 = activity_write Match w in
      case countMatch col match_str condorq_dict_idle glidein_dict of
        Inl e \<Rightarrow> (Inl e, w1)
      | Inr count_glideins_idle \<Rightarrow>
     (case countMatch col match_str condorq_dict_running glidein_dict of
        Inl e \<Rightarrow> (Inl e, w1)
      | Inr count_glideins_running \<Rightarrow>
          for_glidename col frontend_name factory_pool max_idle reserve_idle glidein_params
            count_glideins_idle count_glideins_running (map fst count_glideins_idle) w1)))))"

text \<open>
  The counts a pass works on: what the two calls of \<^verbatim>\<open>countMatch\<close> return when no
  collaborator of lines 33 to 39 raises.
\<close>

definition match_counts ::
  "('g, 'q) collaborators \<Rightarrow> pyval \<Rightarrow> pyval \<Rightarrow> pyval \<Rightarrow> pyval \<Rightarrow>
   ((string \<times> int) list \<times> (string \<times> int) list) option" where
  "match_counts col factory_pool schedd_names job_constraint match_str =
     (case findGlideins col factory_pool of
        Inl e \<Rightarrow> None
      | Inr glidein_dict \<Rightarrow>
     (case getIdleCondorQ col schedd_names job_constraint of
        Inl e \<Rightarrow> None
      | Inr condorq_dict_idle \<Rightarrow>
     (case getRunningCondorQ col schedd_names job_constraint of
        Inl e \<Rightarrow> None
      | Inr condorq_dict_running \<Rightarrow>
     (case countMatch col match_str condorq_dict_idle glidein_dict of
        Inl e \<Rightarrow> None
      | Inr count_glideins_idle \<Rightarrow>
     (case countMatch col match_str condorq_dict_running glidein_dict of
        Inl e \<Rightarrow> None
      | Inr count_glideins_running \<Rightarrow>
          Some (count_glideins_idle, count_glideins_running))))))"

text \<open>The advertise calls made between two worlds.\<close>

definition new_requests :: "world \<Rightarrow> world \<Rightarrow> request list" where
  "new_requests w w' = drop (length (advertized w)) (advertized w')"


section \<open>The lifecycle: \<^verbatim>\<open>iterate\<close>\<close>

text \<open>
  What lies outside the process, as the loop meets it: the collaborators as they behave
  during pass \<open>n\<close> (passes are counted from 0), what \<^verbatim>\<open>time.sleep\<close> does after pass
  \<open>n\<close> (it returns, or raises: a signal delivered during the sleep surfaces there as
  \<^verbatim>\<open>KeyboardInterrupt\<close>), what \<^verbatim>\<open>deadvertizeAllWork\<close> does, the successive readings of
  \<^verbatim>\<open>time.ctime()\<close>, the process id, and the text of the start time.
\<close>

record ('g, 'q) environment =
  collab :: "nat \<Rightarrow> ('g, 'q) collaborators"
  sleep :: "nat \<Rightarrow> int \<Rightarrow> exn option"
  deadvertizeAllWork :: "pyval \<Rightarrow> pyval \<Rightarrow> exn option"
  ctime :: "nat \<Rightarrow> string"
  getpid :: nat
  startup_ctime :: string

definition now :: "('g, 'q) environment \<Rightarrow> world \<Rightarrow> string" where
  "now env w = ctime env (clock w)"

definition tick :: "world \<Rightarrow> world" where
  "tick w = w\<lparr>clock := Suc (clock w)\<rparr>"

text \<open>The decimal text of a number, as \<^verbatim>\<open>%s\<close> prints a process id.\<close>

function str_nat :: "nat \<Rightarrow> string" where
  "str_nat n =
     (if n < 10 then [char_of (48 + n)]
      else str_nat (n div 10) @ [char_of (48 + n mod 10)])"
  by pat_completeness auto
termination
  by (relation "measure id") auto

declare str_nat.simps [simp del]

text \<open>\<^verbatim>\<open>os.path.join\<close> of two components (posixpath).\<close>

definition os_path_join :: "string \<Rightarrow> string \<Rightarrow> string" where
  "os_path_join a b =
     (if b \<noteq> [] \<and> hd b = CHR ''/'' then b
      else if a = [] \<or> last a = CHR ''/'' then a @ b
      else a @ ''/'' @ b)"

text \<open>Line 93: the text written to the lock file.\<close>

definition lock_record :: "nat \<Rightarrow> string \<Rightarrow> string" where
  "lock_record pid started =
     ''PID: '' @ str_nat pid @ [CHR 0x0A] @ ''Started: '' @ started @ [CHR 0x0A]"

text \<open>
  Lines 80 to 94. When the lock file does not exist it is created empty: the
  \<^verbatim>\<open>open(lock_file,"w")\<close> of line 82 raises \<^verbatim>\<open>IOError\<close> where no file can be created (a
  missing log directory), outside every \<^verbatim>\<open>try\<close>. The file is then opened by the
  \<^verbatim>\<open>open(lock_file,"r+")\<close> of line 85, which raises \<^verbatim>\<open>IOError\<close> on a missing file, and
  locked without blocking. \<^verbatim>\<open>flock\<close> raises \<^verbatim>\<open>IOError\<close> when the file is locked through
  another open file; the handler closes the file and raises \<^verbatim>\<open>RuntimeError\<close>. Otherwise the
  file is truncated and the lock record written.
\<close>

definition acquire_lock ::
  "('g, 'q) environment \<Rightarrow> string \<Rightarrow> world \<Rightarrow> (exn + unit) \<times> world" where
  "acquire_lock env lock_file w =
     (case (if files w lock_file = None
            then (if creatable w lock_file
                  then Inr (w\<lparr>files :=
                              (files w)(lock_file \<mapsto> \<lparr>content = [], locked_by = None\<rparr>)\<rparr>)
                  else Inl IOError)
            else Inr w) of
        Inl e \<Rightarrow> (Inl e, w)
      | Inr w1 \<Rightarrow>
          (case files w1 lock_file of
             None \<Rightarrow> (Inl IOError, w1)
           | Some f \<Rightarrow>
               (if locked_by f \<noteq> None
                then (Inl (RuntimeError ''Another frontend already running''), w1)
                else (Inr (),
                      w1\<lparr>files := (files w1)(lock_file \<mapsto>
                           \<lparr>content = lock_record (getpid env) (startup_ctime env),
                            locked_by = Some (getpid env)\<rparr>)\<rparr>))))"

text \<open>
  The lock can be taken: the lock file is there and no open file holds a lock on it, or
  it is missing at a path where the process can create it. These are the worlds in
  which the startup passes (lemma \<open>startup_passes\<close> below).
\<close>

definition lock_free :: "world \<Rightarrow> string \<Rightarrow> bool" where
  "lock_free w lock_file =
     (case files w lock_file of
        None \<Rightarrow> creatable w lock_file
      | Some f \<Rightarrow> locked_by f = None)"

text \<open>\<^verbatim>\<open>fd.close()\<close> of line 136: closing the file gives the lock up.\<close>

definition close_lock :: "string \<Rightarrow> world \<Rightarrow> world" where
  "close_lock lock_file w =
     (case files w lock_file of
        None \<Rightarrow> w
      | Some f \<Rightarrow> w\<lparr>files := (files w)(lock_file \<mapsto> f\<lparr>locked_by := None\<rparr>)\<rparr>)"

text \<open>
  Lines 102 to 118: one round of the \<^verbatim>\<open>while 1\<close> loop. \<open>Inl e\<close> is an exception leaving
  the loop, \<open>Inr ()\<close> means that the loop goes round again.
\<close>

definition loop_body ::
  "('g, 'q) environment \<Rightarrow> int \<Rightarrow> pyval \<Rightarrow> pyval \<Rightarrow> pyval \<Rightarrow> pyval \<Rightarrow> pyval \<Rightarrow> int \<Rightarrow> int \<Rightarrow>
   pyval \<Rightarrow> nat \<Rightarrow> bool \<Rightarrow> world \<Rightarrow> (exn + unit) \<times> world" where
  "loop_body env sleep_time frontend_name factory_pool schedd_names job_constraint match_str
       max_idle reserve_idle glidein_params n is_first w =
     (let w1 = activity_write (Iteration_at (now env w)) (tick w);
          (done_something, w2) =
             iterate_one (collab env n) frontend_name factory_pool schedd_names
               job_constraint match_str max_idle reserve_idle glidein_params w1
      in case done_something of
           Inl e \<Rightarrow>
             (if e = KeyboardInterrupt then (Inl e, w2)
              else if is_first then (Inl e, w2)
              else (let w3 = warning_write (Exception_at (now env w2) e) (tick w2);
                        w4 = activity_write Sleep w3
                    in case sleep env n sleep_time of
                         Some e' \<Rightarrow> (Inl e', w4)
                       | None \<Rightarrow> (Inr (), w4)))
         | Inr u \<Rightarrow>
             (let w4 = activity_write Sleep w2
              in case sleep env n sleep_time of
                   Some e' \<Rightarrow> (Inl e', w4)
                 | None \<Rightarrow> (Inr (), w4)))"

text \<open>
  The \<^verbatim>\<open>while 1\<close> loop of line 101, with the pass number and \<^verbatim>\<open>is_first\<close> as its state. It
  ends only by an exception; a loop that goes round for ever has the value \<open>None\<close>.
\<close>

partial_function (option) while_1 ::
  "(nat \<Rightarrow> bool \<Rightarrow> world \<Rightarrow> (exn + unit) \<times> world) \<Rightarrow> nat \<Rightarrow> bool \<Rightarrow> world \<Rightarrow>
   (exn \<times> world) option" where
  "while_1 body n is_first w =
     (case body n is_first w of
        (Inl e, w') \<Rightarrow> Some (e, w')
      | (Inr u, w') \<Rightarrow> while_1 body (Suc n) False w')"

text \<open>
  Lines 119 to 136: the handlers around the loop and the two \<^verbatim>\<open>finally\<close> blocks, entered
  with the exception \<open>e\<close> that left the loop. The result is \<open>Inr ()\<close> when \<^verbatim>\<open>iterate\<close>
  returns and \<open>Inl e\<close> when \<open>e\<close> is raised again.
\<close>

definition shutdown ::
  "('g, 'q) environment \<Rightarrow> pyval \<Rightarrow> pyval \<Rightarrow> string \<Rightarrow> exn \<Rightarrow> world \<Rightarrow> (exn + unit) \<times> world" where
  "shutdown env frontend_name factory_pool lock_file e w =
     (let w1 = (if e = KeyboardInterrupt then activity_write Received_signal_exit w
                else warning_write (Exception_at (now env w) e) (tick w));
          w2 = activity_write Deadvertize_my_ads w1;
          w3 = w2\<lparr>deadvertized := deadvertized w2 @ [(factory_pool, frontend_name)]\<rparr>;
          w4 = (case deadvertizeAllWork env factory_pool frontend_name of
                  None \<Rightarrow> w3
                | Some e' \<Rightarrow>
                    (let w5 = warning_write Failed_to_deadvertize w3
                     in warning_write (Exception_at (now env w5) e') (tick w5)))
      in (if e = KeyboardInterrupt then Inr () else Inl e, close_lock lock_file w4))"

text \<open>
  Lines 65 to 136. \<^verbatim>\<open>os.path.join\<close> raises \<^verbatim>\<open>AttributeError\<close> on a \<^verbatim>\<open>log_dir\<close> that is not
  a string. The two log objects and the cleanup object of lines 73 to 77 are handles
  only (see the section on logging).
\<close>

definition iterate ::
  "('g, 'q) environment \<Rightarrow> pyval \<Rightarrow> int \<Rightarrow> pyval \<Rightarrow> pyval \<Rightarrow> pyval \<Rightarrow> pyval \<Rightarrow> pyval \<Rightarrow>
   int \<Rightarrow> int \<Rightarrow> pyval \<Rightarrow> world \<Rightarrow> ((exn + unit) \<times> world) option" where
  "iterate env log_dir sleep_time frontend_name factory_pool schedd_names job_constraint
       match_str max_idle reserve_idle glidein_params w =
     (case log_dir of
        PStr dir \<Rightarrow>
          (let lock_file = os_path_join dir ''glideinWMS.lock''
           in case acquire_lock env lock_file w of
                (Inl e, w1) \<Rightarrow> Some (Inl e, w1)
              | (Inr u, w1) \<Rightarrow>
                  (case while_1
                          (loop_body env sleep_time frontend_name factory_pool schedd_names
                             job_constraint match_str max_idle reserve_idle glidein_params)
                          0 True (activity_write Starting_up w1) of
                     None \<Rightarrow> None
                   | Some (e, w2) \<Rightarrow>
                       Some (shutdown env frontend_name factory_pool lock_file e w2)))
      | _ \<Rightarrow> Some (Inl AttributeError, w))"

section \<open>The entry point: \<^verbatim>\<open>main\<close>\<close>

text \<open>\<^verbatim>\<open>config_dict[key]\<close>.\<close>

definition subscript :: "(string \<times> pyval) list \<Rightarrow> string \<Rightarrow> exn + pyval" where
  "subscript config_dict key =
     (case map_of config_dict key of None \<Rightarrow> Inl (KeyError key) | Some v \<Rightarrow> Inr v)"

text \<open>
  Lines 139 to 146. What \<^verbatim>\<open>execfile\<close> makes of a configuration file (it raises, or fills
  the dictionary) is a parameter. The arguments of the call are evaluated from left to
  right, so the first missing key is the one reported.
\<close>

definition main ::
  "(string \<Rightarrow> exn + (string \<times> pyval) list) \<Rightarrow> ('g, 'q) environment \<Rightarrow> int \<Rightarrow> int \<Rightarrow> string \<Rightarrow>
   world \<Rightarrow> ((exn + unit) \<times> world) option" where
  "main execfile env sleep_time advertize_rate config_file w =
     (case execfile config_file of
        Inl e \<Rightarrow> Some (Inl e, w)
      | Inr config_dict \<Rightarrow>
     (case subscript config_dict ''log_dir'' of
        Inl e \<Rightarrow> Some (Inl e, w)
      | Inr log_dir \<Rightarrow>
     (case subscript config_dict ''frontend_name'' of
        Inl e \<Rightarrow> Some (Inl e, w)
      | Inr frontend_name \<Rightarrow>
     (case subscript config_dict ''factory_pool'' of
        Inl e \<Rightarrow> Some (Inl e, w)
      | Inr factory_pool \<Rightarrow>
     (case subscript config_dict ''schedd_names'' of
        Inl e \<Rightarrow> Some (Inl e, w)
      | Inr schedd_names \<Rightarrow>
     (case subscript config_dict ''job_constraint'' of
        Inl e \<Rightarrow> Some (Inl e, w)
      | Inr job_constraint \<Rightarrow>
     (case subscript config_dict ''match_string'' of
        Inl e \<Rightarrow> Some (Inl e, w)
      | Inr match_string \<Rightarrow>
     (case subscript config_dict ''glidein_params'' of
        Inl e \<Rightarrow> Some (Inl e, w)
      | Inr glidein_params \<Rightarrow>
          iterate env log_dir sleep_time frontend_name factory_pool schedd_names
            job_constraint match_string 100 5 glidein_params w))))))))"

section \<open>Concrete runs\<close>

text \<open>
  Collaborators that answer from a script: the idle and the running counts that
  \<^verbatim>\<open>countMatch\<close> returns, and the glideins for which \<^verbatim>\<open>advertizeWork\<close> raises.
\<close>

definition scripted ::
  "(string \<times> int) list \<Rightarrow> (string \<times> int) list \<Rightarrow> string list \<Rightarrow> (unit, bool) collaborators" where
  "scripted idle running failing =
     \<lparr>findGlideins = (\<lambda>pool. Inr ()),
      getIdleCondorQ = (\<lambda>schedds constr. Inr True),
      getRunningCondorQ = (\<lambda>schedds constr. Inr False),
      countMatch = (\<lambda>match_str q g. Inr (if q then idle else running)),
      advertizeWork = (\<lambda>r. if req_glidename r \<in> set failing
                            then Some (OtherError ''simulated'') else None)\<rparr>"

text \<open>Collaborators whose discovery raises the given exception.\<close>

definition raising :: "exn \<Rightarrow> (unit, bool) collaborators" where
  "raising e =
     \<lparr>findGlideins = (\<lambda>pool. Inl e),
      getIdleCondorQ = (\<lambda>schedds constr. Inr True),
      getRunningCondorQ = (\<lambda>schedds constr. Inr False),
      countMatch = (\<lambda>match_str q g. Inr []),
      advertizeWork = (\<lambda>r. None)\<rparr>"

text \<open>
  An environment in which the sleep always returns and the retraction succeeds or raises
  as told, around the given collaborators.
\<close>

definition scripted_env ::
  "(nat \<Rightarrow> (unit, bool) collaborators) \<Rightarrow> exn option \<Rightarrow> (unit, bool) environment" where
  "scripted_env cs retract =
     \<lparr>collab = cs, sleep = (\<lambda>n t. None), deadvertizeAllWork = (\<lambda>pool name. retract),
      ctime = (\<lambda>k. ''now''), getpid = 4711, startup_ctime = ''then''\<rparr>"

definition empty_world :: world where
  "empty_world =
     \<lparr>files = Map.empty, creatable = (\<lambda>path. True), activity_log = [],
      warning_log = [], advertized = [], deadvertized = [], clock = 0\<rparr>"

section \<open>Properties of one pass\<close>

lemma iterate_one_counted:
  assumes "match_counts col factory_pool schedd_names job_constraint match_str =
             Some (count_glideins_idle, count_glideins_running)"
  shows "iterate_one col frontend_name factory_pool schedd_names job_constraint match_str
           max_idle reserve_idle glidein_params w =
         for_glidename col frontend_name factory_pool max_idle reserve_idle glidein_params
           count_glideins_idle count_glideins_running (map fst count_glideins_idle)
           (activity_write Match w)"
  using assms unfolding iterate_one_def match_counts_def
  by (simp split: sum.splits)

lemma iterate_one_not_counted:
  assumes "match_counts col factory_pool schedd_names job_constraint match_str = None"
  shows "advertized (snd (iterate_one col frontend_name factory_pool schedd_names
           job_constraint match_str max_idle reserve_idle glidein_params w)) = advertized w"
  using assms unfolding iterate_one_def match_counts_def
  by (simp add: activity_write_def split: sum.splits)

text \<open>
  The advertise calls of the loop: one for each key, in order, up to the first key that
  is missing from the running counts.
\<close>

lemma for_glidename_advertized:
  assumes "set ks \<subseteq> fst ` set count_glideins_idle"
  shows "advertized (snd (for_glidename col frontend_name factory_pool max_idle reserve_idle
           glidein_params count_glideins_idle count_glideins_running ks w)) =
         advertized w @
         map (\<lambda>k. make_request frontend_name factory_pool max_idle reserve_idle glidein_params k
                    (the (map_of count_glideins_idle k)) (the (map_of count_glideins_running k)))
           (takeWhile (\<lambda>k. map_of count_glideins_running k \<noteq> None) ks)"
  using assms
proof (induction ks arbitrary: w)
  case Nil
  then show ?case by simp
next
  case (Cons k ks)
  from Cons.prems have "k \<in> fst ` set count_glideins_idle" by simp
  then obtain i where i: "map_of count_glideins_idle k = Some i"
    by (metis domD dom_map_of_conv_image_fst)
  from Cons.prems have ks: "set ks \<subseteq> fst ` set count_glideins_idle" by simp
  show ?case
  proof (cases "map_of count_glideins_running k")
    case None
    then show ?thesis using i by simp
  next
    case (Some r)
    then show ?thesis using i Cons.IH [OF ks]
      by (simp add: Let_def activity_write_def warning_write_def split: option.splits)
  qed
qed

lemma new_requests_append [simp]:
  "advertized w' = advertized w @ rs \<Longrightarrow> new_requests w w' = rs"
  by (simp add: new_requests_def)

lemma pass_requests:
  assumes "match_counts col factory_pool schedd_names job_constraint match_str =
             Some (count_glideins_idle, count_glideins_running)"
  shows "new_requests w (snd (iterate_one col frontend_name factory_pool schedd_names
           job_constraint match_str max_idle reserve_idle glidein_params w)) =
         map (\<lambda>k. make_request frontend_name factory_pool max_idle reserve_idle glidein_params k
                    (the (map_of count_glideins_idle k)) (the (map_of count_glideins_running k)))
           (takeWhile (\<lambda>k. map_of count_glideins_running k \<noteq> None)
              (map fst count_glideins_idle))"
proof -
  have "advertized (snd (iterate_one col frontend_name factory_pool schedd_names
           job_constraint match_str max_idle reserve_idle glidein_params w)) =
        advertized (activity_write Match w) @
         map (\<lambda>k. make_request frontend_name factory_pool max_idle reserve_idle glidein_params k
                    (the (map_of count_glideins_idle k)) (the (map_of count_glideins_running k)))
           (takeWhile (\<lambda>k. map_of count_glideins_running k \<noteq> None)
              (map fst count_glideins_idle))"
    unfolding iterate_one_counted [OF assms]
    by (rule for_glidename_advertized) simp
  then show ?thesis
    by (simp add: activity_write_def)
qed


lemma for_glidename_result:
  assumes "set ks \<subseteq> fst ` set count_glideins_idle"
  shows "fst (for_glidename col frontend_name factory_pool max_idle reserve_idle
           glidein_params count_glideins_idle count_glideins_running ks w) =
         (case dropWhile (\<lambda>k. map_of count_glideins_running k \<noteq> None) ks of
            [] \<Rightarrow> Inr ()
          | k # rest \<Rightarrow> Inl (KeyError k))"
  using assms
proof (induction ks arbitrary: w)
  case Nil
  then show ?case by simp
next
  case (Cons k ks)
  from Cons.prems have "k \<in> fst ` set count_glideins_idle" by simp
  then obtain i where i: "map_of count_glideins_idle k = Some i"
    by (metis domD dom_map_of_conv_image_fst)
  from Cons.prems have ks: "set ks \<subseteq> fst ` set count_glideins_idle" by simp
  show ?case
  proof (cases "map_of count_glideins_running k")
    case None
    then show ?thesis using i by simp
  next
    case (Some r)
    then show ?thesis using i Cons.IH [OF ks]
      by (simp add: Let_def)
  qed
qed

lemma for_glidename_warnings:
  assumes "set ks \<subseteq> fst ` set count_glideins_idle"
  shows "warning_log (snd (for_glidename col frontend_name factory_pool max_idle reserve_idle
           glidein_params count_glideins_idle count_glideins_running ks w)) =
         warning_log w @
         map (\<lambda>r. Advertize_failed (req_request_name r) (req_min_idle r))
           (filter (\<lambda>r. advertizeWork col r \<noteq> None)
              (map (\<lambda>k. make_request frontend_name factory_pool max_idle reserve_idle
                      glidein_params k
                      (the (map_of count_glideins_idle k)) (the (map_of count_glideins_running k)))
                 (takeWhile (\<lambda>k. map_of count_glideins_running k \<noteq> None) ks)))"
  using assms
proof (induction ks arbitrary: w)
  case Nil
  then show ?case by simp
next
  case (Cons k ks)
  from Cons.prems have "k \<in> fst ` set count_glideins_idle" by simp
  then obtain i where i: "map_of count_glideins_idle k = Some i"
    by (metis domD dom_map_of_conv_image_fst)
  from Cons.prems have ks: "set ks \<subseteq> fst ` set count_glideins_idle" by simp
  show ?case
  proof (cases "map_of count_glideins_running k")
    case None
    then show ?thesis using i by simp
  next
    case (Some r)
    then show ?thesis using i Cons.IH [OF ks]
      by (simp add: Let_def activity_write_def warning_write_def split: option.splits)
  qed
qed

lemma pass_result:
  assumes "match_counts col factory_pool schedd_names job_constraint match_str =
             Some (count_glideins_idle, count_glideins_running)"
  shows "fst (iterate_one col frontend_name factory_pool schedd_names
           job_constraint match_str max_idle reserve_idle glidein_params w) =
         (case dropWhile (\<lambda>k. map_of count_glideins_running k \<noteq> None)
                 (map fst count_glideins_idle) of
            [] \<Rightarrow> Inr ()
          | k # rest \<Rightarrow> Inl (KeyError k))"
  unfolding iterate_one_counted [OF assms]
  by (rule for_glidename_result) simp

lemma pass_warnings:
  assumes "match_counts col factory_pool schedd_names job_constraint match_str =
             Some (count_glideins_idle, count_glideins_running)"
  shows "warning_log (snd (iterate_one col frontend_name factory_pool schedd_names
           job_constraint match_str max_idle reserve_idle glidein_params w)) =
         warning_log w @
         map (\<lambda>r. Advertize_failed (req_request_name r) (req_min_idle r))
           (filter (\<lambda>r. advertizeWork col r \<noteq> None)
              (new_requests w (snd (iterate_one col frontend_name factory_pool schedd_names
                 job_constraint match_str max_idle reserve_idle glidein_params w))))"
proof -
  have "warning_log (snd (iterate_one col frontend_name factory_pool schedd_names
           job_constraint match_str max_idle reserve_idle glidein_params w)) =
        warning_log (activity_write Match w) @
         map (\<lambda>r. Advertize_failed (req_request_name r) (req_min_idle r))
           (filter (\<lambda>r. advertizeWork col r \<noteq> None)
              (map (\<lambda>k. make_request frontend_name factory_pool max_idle reserve_idle
                      glidein_params k
                      (the (map_of count_glideins_idle k)) (the (map_of count_glideins_running k)))
                 (takeWhile (\<lambda>k. map_of count_glideins_running k \<noteq> None)
                    (map fst count_glideins_idle))))"
    unfolding iterate_one_counted [OF assms]
    by (rule for_glidename_warnings) simp
  then show ?thesis
    unfolding pass_requests [OF assms] by (simp add: activity_write_def)
qed

lemma all_counted:
  "fst ` set count_glideins_idle \<subseteq> fst ` set count_glideins_running \<Longrightarrow>
   takeWhile (\<lambda>k. map_of count_glideins_running k \<noteq> None) (map fst count_glideins_idle) =
     map fst count_glideins_idle \<and>
   dropWhile (\<lambda>k. map_of count_glideins_running k \<noteq> None) (map fst count_glideins_idle) = []"
proof -
  assume a: "fst ` set count_glideins_idle \<subseteq> fst ` set count_glideins_running"
  have "\<forall>k \<in> set (map fst count_glideins_idle). map_of count_glideins_running k \<noteq> None"
    using a by (auto simp: map_of_eq_None_iff)
  then show ?thesis by simp
qed

lemma match_counts_advertizeWork [simp]:
  "match_counts (col\<lparr>advertizeWork := a\<rparr>) factory_pool schedd_names job_constraint match_str =
   match_counts col factory_pool schedd_names job_constraint match_str"
  by (simp add: match_counts_def split: sum.splits)

lemma pass_names:
  assumes "match_counts col factory_pool schedd_names job_constraint match_str =
             Some (count_glideins_idle, count_glideins_running)"
  shows "map req_glidename (new_requests w (snd (iterate_one col frontend_name factory_pool
           schedd_names job_constraint match_str max_idle reserve_idle glidein_params w))) =
         takeWhile (\<lambda>k. map_of count_glideins_running k \<noteq> None) (map fst count_glideins_idle)"
  unfolding pass_requests [OF assms]
  by (simp add: make_request_def comp_def)

section \<open>Properties of the lifecycle\<close>

lemma iterate_one_fst_world:
  "fst (iterate_one col frontend_name factory_pool schedd_names job_constraint match_str
          max_idle reserve_idle glidein_params w) =
   fst (iterate_one col frontend_name factory_pool schedd_names job_constraint match_str
          max_idle reserve_idle glidein_params w')"
  unfolding iterate_one_def
  by (simp add: Let_def for_glidename_result split: sum.splits)

lemma for_glidename_deadvertized:
  "deadvertized (snd (for_glidename col frontend_name factory_pool max_idle reserve_idle
     glidein_params count_glideins_idle count_glideins_running ks w)) = deadvertized w"
  by (induction ks arbitrary: w)
     (simp_all add: Let_def activity_write_def warning_write_def split: option.splits)

lemma iterate_one_deadvertized:
  "deadvertized (snd (iterate_one col frontend_name factory_pool schedd_names job_constraint
     match_str max_idle reserve_idle glidein_params w)) = deadvertized w"
  unfolding iterate_one_def
  by (simp add: Let_def for_glidename_deadvertized activity_write_def split: sum.splits)

lemma loop_body_deadvertized:
  "deadvertized (snd (loop_body env sleep_time frontend_name factory_pool schedd_names
     job_constraint match_str max_idle reserve_idle glidein_params n is_first w)) =
   deadvertized w"
proof -
  have d: "deadvertized (snd (iterate_one (collab env n) frontend_name factory_pool
     schedd_names job_constraint match_str max_idle reserve_idle glidein_params
     (activity_write (Iteration_at (now env w)) (tick w)))) = deadvertized w"
    by (simp add: iterate_one_deadvertized activity_write_def tick_def)
  show ?thesis
    unfolding loop_body_def Let_def
    using d
    by (simp add: case_prod_unfold activity_write_def warning_write_def tick_def
          split: sum.splits option.splits)
qed

lemma while_1_invariant:
  assumes "while_1 body n is_first w = Some (e, w')"
      and "\<And>n is_first w. P w \<Longrightarrow> P (snd (body n is_first w))"
      and "P w"
  shows "P w'"
proof -
  let ?Q = "\<lambda>body n (is_first :: bool) w y.
     (\<forall>n is_first w. P w \<longrightarrow> P (snd (body n is_first w))) \<longrightarrow> P w \<longrightarrow> P (snd y)"
  have "?Q body n is_first w (e, w')"
  proof (rule while_1.raw_induct [where P = ?Q, OF _ assms(1)], intro impI)
    fix loop body n is_first w and y :: "exn \<times> world"
    assume IH: "\<And>body n is_first w y. loop body n is_first w = Some y \<Longrightarrow> ?Q body n is_first w y"
      and run: "(case body n is_first w of
                   (Inl e, w') \<Rightarrow> Some (e, w')
                 | (Inr u, w') \<Rightarrow> loop body (Suc n) False w') = Some y"
      and step: "\<forall>n is_first w. P w \<longrightarrow> P (snd (body n is_first w))" and w: "P w"
    obtain r w1 where b: "body n is_first w = (r, w1)" by (cases "body n is_first w")
    from step w b have w1: "P w1" by (metis snd_conv)
    show "P (snd y)"
    proof (cases r)
      case (Inl e)
      with run b w1 show ?thesis by auto
    next
      case (Inr u)
      with run b have "loop body (Suc n) False w1 = Some y" by simp
      from IH [OF this] step w1 show ?thesis by blast
    qed
  qed
  with assms(2,3) show ?thesis by simp
qed

lemma while_1_leave:
  "body n is_first w = (Inl e, w') \<Longrightarrow> while_1 body n is_first w = Some (e, w')"
  by (subst while_1.simps) simp

lemma while_1_round:
  "body n is_first w = (Inr u, w') \<Longrightarrow>
   while_1 body n is_first w = while_1 body (Suc n) False w'"
  by (subst while_1.simps) simp

lemma shutdown_deadvertized:
  "deadvertized (snd (shutdown env frontend_name factory_pool lock_file e w)) =
   deadvertized w @ [(factory_pool, frontend_name)]"
  by (simp add: shutdown_def Let_def close_lock_def activity_write_def warning_write_def
        tick_def split: option.splits)

lemma shutdown_result:
  "fst (shutdown env frontend_name factory_pool lock_file e w) =
   (if e = KeyboardInterrupt then Inr () else Inl e)"
  by (simp add: shutdown_def Let_def)

lemma shutdown_fatal_warning:
  "e \<noteq> KeyboardInterrupt \<Longrightarrow>
   Exception_at (now env w) e \<in>
     set (warning_log (snd (shutdown env frontend_name factory_pool lock_file e w)))"
  by (auto simp add: shutdown_def Let_def close_lock_def activity_write_def warning_write_def
        tick_def split: option.splits)

lemma shutdown_failed_warning:
  "deadvertizeAllWork env factory_pool frontend_name \<noteq> None \<Longrightarrow>
   Failed_to_deadvertize \<in>
     set (warning_log (snd (shutdown env frontend_name factory_pool lock_file e w)))"
  by (auto simp add: shutdown_def Let_def close_lock_def activity_write_def warning_write_def
        tick_def split: option.splits)

lemma startup_passes:
  "fst (acquire_lock env lock_file w) = Inr () \<longleftrightarrow> lock_free w lock_file"
  by (auto simp add: lock_free_def acquire_lock_def split: option.splits)

lemma startup_open_fails:
  "files w lock_file = None \<Longrightarrow> \<not> creatable w lock_file \<Longrightarrow>
   acquire_lock env lock_file w = (Inl IOError, w)"
  by (simp add: acquire_lock_def)

lemma acquire_lock_free:
  assumes "lock_free w lock_file"
  shows "fst (acquire_lock env lock_file w) = Inr () \<and>
         deadvertized (snd (acquire_lock env lock_file w)) = deadvertized w"
  using assms
  by (auto simp add: lock_free_def acquire_lock_def Let_def split: option.splits)

lemma loop_body_retract [simp]:
  "loop_body (env\<lparr>deadvertizeAllWork := d\<rparr>) = loop_body env"
  by (intro ext)
     (simp add: loop_body_def now_def Let_def split: prod.splits sum.splits option.splits)

lemma acquire_lock_retract [simp]:
  "acquire_lock (env\<lparr>deadvertizeAllWork := d\<rparr>) = acquire_lock env"
  by (intro ext) (simp add: acquire_lock_def Let_def split: option.splits)

lemma iterate_started:
  assumes "lock_free w (os_path_join dir ''glideinWMS.lock'')"
  shows "iterate env (PStr dir) sleep_time frontend_name factory_pool schedd_names
           job_constraint match_str max_idle reserve_idle glidein_params w =
         (case while_1
                 (loop_body env sleep_time frontend_name factory_pool schedd_names
                    job_constraint match_str max_idle reserve_idle glidein_params)
                 0 True
                 (activity_write Starting_up
                    (snd (acquire_lock env (os_path_join dir ''glideinWMS.lock'') w))) of
            None \<Rightarrow> None
          | Some (e, w2) \<Rightarrow>
              Some (shutdown env frontend_name factory_pool
                      (os_path_join dir ''glideinWMS.lock'') e w2))"
  using acquire_lock_free [OF assms, of env]
  by (simp add: iterate_def Let_def case_prod_unfold split: sum.splits)

lemma loop_body_first_raise:
  assumes "fst (iterate_one (collab env n) frontend_name factory_pool schedd_names
             job_constraint match_str max_idle reserve_idle glidein_params w0) = Inl e"
  shows "loop_body env sleep_time frontend_name factory_pool schedd_names job_constraint
           match_str max_idle reserve_idle glidein_params n True w =
         (Inl e, snd (iterate_one (collab env n) frontend_name factory_pool schedd_names
             job_constraint match_str max_idle reserve_idle glidein_params
             (activity_write (Iteration_at (now env w)) (tick w))))"
proof -
  have "fst (iterate_one (collab env n) frontend_name factory_pool schedd_names
             job_constraint match_str max_idle reserve_idle glidein_params
             (activity_write (Iteration_at (now env w)) (tick w))) = Inl e"
    using assms iterate_one_fst_world by metis
  then show ?thesis
    by (simp add: loop_body_def Let_def case_prod_unfold)
qed

lemma loop_body_later_raise:
  assumes "fst (iterate_one (collab env n) frontend_name factory_pool schedd_names
             job_constraint match_str max_idle reserve_idle glidein_params w0) = Inl e"
      and "e \<noteq> KeyboardInterrupt"
      and "sleep env n sleep_time = None"
  shows "loop_body env sleep_time frontend_name factory_pool schedd_names job_constraint
           match_str max_idle reserve_idle glidein_params n False w =
         (Inr (),
          activity_write Sleep
            (warning_write
               (Exception_at
                  (now env (snd (iterate_one (collab env n) frontend_name factory_pool
                     schedd_names job_constraint match_str max_idle reserve_idle glidein_params
                     (activity_write (Iteration_at (now env w)) (tick w))))) e)
               (tick (snd (iterate_one (collab env n) frontend_name factory_pool
                     schedd_names job_constraint match_str max_idle reserve_idle glidein_params
                     (activity_write (Iteration_at (now env w)) (tick w)))))))"
proof -
  have "fst (iterate_one (collab env n) frontend_name factory_pool schedd_names
             job_constraint match_str max_idle reserve_idle glidein_params
             (activity_write (Iteration_at (now env w)) (tick w))) = Inl e"
    using assms(1) iterate_one_fst_world by metis
  then show ?thesis
    using assms(2,3) by (simp add: loop_body_def Let_def case_prod_unfold)
qed

text \<open>The definitions that a concrete run unfolds.\<close>

lemmas run_defs =
  iterate_def acquire_lock_def os_path_join_def lock_free_def close_lock_def
  loop_body_def iterate_one_def shutdown_def scripted_env_def scripted_def raising_def
  empty_world_def activity_write_def warning_write_def now_def tick_def Let_def
  make_request_def glidein_min_idle_def

section \<open>Demand sizing\<close>

text \<open>
  Claim C1. Every request that a pass advertises is for a key of the idle counts, and
  with \<open>idle_jobs\<close> the count of that key: if \<open>idle_jobs > 0\<close> the advertised minimum of
  idle glideins is \<open>min (idle_jobs + reserve_idle) max_idle\<close>, and if \<open>idle_jobs = 0\<close> it
  is \<open>0\<close>.
\<close>

theorem published_min_idle:
  assumes "match_counts col factory_pool schedd_names job_constraint match_str =
             Some (count_glideins_idle, count_glideins_running)"
      and "r \<in> set (new_requests w (snd (iterate_one col frontend_name factory_pool schedd_names
             job_constraint match_str max_idle reserve_idle glidein_params w)))"
  shows "\<exists>idle_jobs. map_of count_glideins_idle (req_glidename r) = Some idle_jobs \<and>
           (0 < idle_jobs \<longrightarrow> req_min_idle r = min (idle_jobs + reserve_idle) max_idle) \<and>
           (idle_jobs = 0 \<longrightarrow> req_min_idle r = 0)"
proof -
  from assms(2) obtain k where
    k: "k \<in> set (takeWhile (\<lambda>k. map_of count_glideins_running k \<noteq> None)
                   (map fst count_glideins_idle))"
    and r: "r = make_request frontend_name factory_pool max_idle reserve_idle glidein_params k
                  (the (map_of count_glideins_idle k)) (the (map_of count_glideins_running k))"
    unfolding pass_requests [OF assms(1)] by auto
  from k have "k \<in> fst ` set count_glideins_idle"
    using set_takeWhileD by fastforce
  then obtain i where i: "map_of count_glideins_idle k = Some i"
    by (metis domD dom_map_of_conv_image_fst)
  show ?thesis
    using i r by (auto simp: make_request_def glidein_min_idle_def Let_def)
qed

theorem published_min_idle_witness:
  "match_counts
     (scripted [(''A'', 10), (''B'', 98), (''C'', 0)] [(''A'', 1), (''B'', 2), (''C'', 3)] [])
     (PStr ''pool'') (PList [''schedd'']) (PStr ''true'') (PStr ''match'') =
     Some ([(''A'', 10), (''B'', 98), (''C'', 0)], [(''A'', 1), (''B'', 2), (''C'', 3)]) \<and>
   make_request (PStr ''fe'') (PStr ''pool'') 100 5 (PDict []) ''B'' 98 2 \<in>
     set (new_requests empty_world (snd (iterate_one
       (scripted [(''A'', 10), (''B'', 98), (''C'', 0)] [(''A'', 1), (''B'', 2), (''C'', 3)] [])
       (PStr ''fe'') (PStr ''pool'') (PList [''schedd'']) (PStr ''true'') (PStr ''match'')
       100 5 (PDict []) empty_world))) \<and>
   req_min_idle (make_request (PStr ''fe'') (PStr ''pool'') 100 5 (PDict []) ''B'' 98 2) = 100"
proof -
  have h1: "match_counts
      (scripted [(''A'', 10), (''B'', 98), (''C'', 0)] [(''A'', 1), (''B'', 2), (''C'', 3)] [])
      (PStr ''pool'') (PList [''schedd'']) (PStr ''true'') (PStr ''match'') =
     Some ([(''A'', 10), (''B'', 98), (''C'', 0)], [(''A'', 1), (''B'', 2), (''C'', 3)])"
    by (simp add: match_counts_def scripted_def)
  have h2: "make_request (PStr ''fe'') (PStr ''pool'') 100 5 (PDict []) ''B'' 98 2 \<in>
     set (new_requests empty_world (snd (iterate_one
       (scripted [(''A'', 10), (''B'', 98), (''C'', 0)] [(''A'', 1), (''B'', 2), (''C'', 3)] [])
       (PStr ''fe'') (PStr ''pool'') (PList [''schedd'']) (PStr ''true'') (PStr ''match'')
       100 5 (PDict []) empty_world)))"
    by (simp add: iterate_one_def scripted_def empty_world_def new_requests_def
          activity_write_def warning_write_def Let_def)
  from published_min_idle [OF h1 h2] h1 h2 show ?thesis
    by (simp add: make_request_def)
qed

text \<open>
  Claim C7. With a non-negative reserve and a non-negative ceiling, every request that a
  pass advertises asks for a minimum of idle glideins between \<open>0\<close> and \<open>max_idle\<close>. The
  bound holds for every idle count, so also for the non-negative ones of the claim.
\<close>

theorem min_idle_within_bounds:
  assumes "0 \<le> reserve_idle" and "0 \<le> max_idle"
      and "r \<in> set (new_requests w (snd (iterate_one col frontend_name factory_pool schedd_names
             job_constraint match_str max_idle reserve_idle glidein_params w)))"
  shows "0 \<le> req_min_idle r \<and> req_min_idle r \<le> max_idle"
proof (cases "match_counts col factory_pool schedd_names job_constraint match_str")
  case None
  from iterate_one_not_counted [OF None] assms(3) show ?thesis
    by (simp add: new_requests_def)
next
  case (Some p)
  obtain ci cr where p: "p = (ci, cr)" by (cases p)
  from assms(3) obtain k where
    "r = make_request frontend_name factory_pool max_idle reserve_idle glidein_params k
           (the (map_of ci k)) (the (map_of cr k))"
    unfolding pass_requests [OF Some [unfolded p]] by auto
  with assms(1,2) show ?thesis
    by (auto simp: make_request_def glidein_min_idle_def Let_def)
qed

theorem min_idle_within_bounds_witness:
  "(0::int) \<le> 5 \<and> (0::int) \<le> 12 \<and>
   make_request (PStr ''fe'') (PStr ''pool'') 12 5 (PDict []) ''A'' 10 1 \<in>
     set (new_requests empty_world (snd (iterate_one
       (scripted [(''A'', 10)] [(''A'', 1)] [])
       (PStr ''fe'') (PStr ''pool'') (PList [''schedd'']) (PStr ''true'') (PStr ''match'')
       12 5 (PDict []) empty_world))) \<and>
   0 \<le> req_min_idle (make_request (PStr ''fe'') (PStr ''pool'') 12 5 (PDict []) ''A'' 10 1) \<and>
   req_min_idle (make_request (PStr ''fe'') (PStr ''pool'') 12 5 (PDict []) ''A'' 10 1) \<le> 12"
proof -
  have h1: "(0::int) \<le> 5" and h2: "(0::int) \<le> 12" by simp_all
  have h3: "make_request (PStr ''fe'') (PStr ''pool'') 12 5 (PDict []) ''A'' 10 1 \<in>
     set (new_requests empty_world (snd (iterate_one
       (scripted [(''A'', 10)] [(''A'', 1)] [])
       (PStr ''fe'') (PStr ''pool'') (PList [''schedd'']) (PStr ''true'') (PStr ''match'')
       12 5 (PDict []) empty_world)))"
    by (simp add: iterate_one_def scripted_def empty_world_def new_requests_def
          activity_write_def warning_write_def Let_def)
  from min_idle_within_bounds [OF h1 h2 h3] h3 show ?thesis
    by simp
qed


section \<open>The running counts\<close>

text \<open>
  Claim C2 says that a key of the idle counts that is absent from the running counts
  gets the running count \<open>0\<close> and that the pass does not fail on it. Line 45 subscripts the
  running counts without a default: with the idle counts \<open>{A: 3}\<close> and empty running
  counts the pass raises \<^verbatim>\<open>KeyError\<close> for \<open>A\<close> and advertises nothing.
\<close>

theorem running_count_missing_counterexample:
  "fst (iterate_one (scripted [(''A'', 3)] [] [])
          (PStr ''fe'') (PStr ''pool'') (PList [''schedd'']) (PStr ''true'') (PStr ''match'')
          100 5 (PDict []) empty_world) = Inl (KeyError ''A'') \<and>
   advertized (snd (iterate_one (scripted [(''A'', 3)] [] [])
          (PStr ''fe'') (PStr ''pool'') (PList [''schedd'']) (PStr ''true'') (PStr ''match'')
          100 5 (PDict []) empty_world)) = []"
  by (simp add: iterate_one_def scripted_def empty_world_def activity_write_def)

text \<open>
  Claim C2, amended. Every request that a pass advertises is for a key that is present in
  the running counts, and the running count of its monitors is the value of that key
  there. When some key of the idle counts is absent from the running counts, the pass
  ends by raising \<^verbatim>\<open>KeyError\<close> for such a key, and no request is advertised for it.
\<close>

theorem running_count_used:
  assumes "match_counts col factory_pool schedd_names job_constraint match_str =
             Some (count_glideins_idle, count_glideins_running)"
  shows "(\<forall>r \<in> set (new_requests w (snd (iterate_one col frontend_name factory_pool
             schedd_names job_constraint match_str max_idle reserve_idle glidein_params w))).
            \<exists>running_jobs. map_of count_glideins_running (req_glidename r) = Some running_jobs \<and>
              map_of (req_monitors r) ''Running'' = Some running_jobs) \<and>
         (\<not> fst ` set count_glideins_idle \<subseteq> fst ` set count_glideins_running \<longrightarrow>
            (\<exists>k. k \<in> fst ` set count_glideins_idle \<and> map_of count_glideins_running k = None \<and>
               fst (iterate_one col frontend_name factory_pool schedd_names job_constraint
                 match_str max_idle reserve_idle glidein_params w) = Inl (KeyError k) \<and>
               (\<forall>r \<in> set (new_requests w (snd (iterate_one col frontend_name factory_pool
                   schedd_names job_constraint match_str max_idle reserve_idle glidein_params w))).
                  req_glidename r \<noteq> k)))"
proof (intro conjI ballI impI)
  fix r
  assume "r \<in> set (new_requests w (snd (iterate_one col frontend_name factory_pool
             schedd_names job_constraint match_str max_idle reserve_idle glidein_params w)))"
  then obtain k where
    k: "k \<in> set (takeWhile (\<lambda>k. map_of count_glideins_running k \<noteq> None)
                   (map fst count_glideins_idle))"
    and r: "r = make_request frontend_name factory_pool max_idle reserve_idle glidein_params k
                  (the (map_of count_glideins_idle k)) (the (map_of count_glideins_running k))"
    unfolding pass_requests [OF assms] by auto
  from k have "map_of count_glideins_running k \<noteq> None"
    using set_takeWhileD by fastforce
  then show "\<exists>running_jobs. map_of count_glideins_running (req_glidename r) = Some running_jobs \<and>
              map_of (req_monitors r) ''Running'' = Some running_jobs"
    using r by (auto simp: make_request_def)
next
  let ?P = "\<lambda>k. map_of count_glideins_running k \<noteq> None"
  let ?ks = "map fst count_glideins_idle"
  assume "\<not> fst ` set count_glideins_idle \<subseteq> fst ` set count_glideins_running"
  then have "\<exists>k \<in> set ?ks. \<not> ?P k"
    by (auto simp: map_of_eq_None_iff)
  then have ne: "dropWhile ?P ?ks \<noteq> []" by simp
  then obtain k rest where d: "dropWhile ?P ?ks = k # rest"
    by (cases "dropWhile ?P ?ks") auto
  have k1: "\<not> ?P k" using d hd_dropWhile [OF ne] by simp
  have k2: "k \<in> set ?ks" using d set_dropWhileD [of k ?P ?ks] by simp
  have k3: "\<forall>x \<in> set (takeWhile ?P ?ks). x \<noteq> k"
    using k1 set_takeWhileD by fastforce
  show "\<exists>k. k \<in> fst ` set count_glideins_idle \<and> map_of count_glideins_running k = None \<and>
               fst (iterate_one col frontend_name factory_pool schedd_names job_constraint
                 match_str max_idle reserve_idle glidein_params w) = Inl (KeyError k) \<and>
               (\<forall>r \<in> set (new_requests w (snd (iterate_one col frontend_name factory_pool
                   schedd_names job_constraint match_str max_idle reserve_idle glidein_params w))).
                  req_glidename r \<noteq> k)"
    unfolding pass_requests [OF assms] pass_result [OF assms]
    using d k1 k2 k3 by (intro exI [of _ k]) (auto simp: make_request_def)
qed

theorem running_count_used_witness:
  "match_counts (scripted [(''A'', 1), (''B'', 2)] [(''A'', 7)] [])
     (PStr ''pool'') (PList [''schedd'']) (PStr ''true'') (PStr ''match'') =
     Some ([(''A'', 1), (''B'', 2)], [(''A'', 7)]) \<and>
   \<not> fst ` set [(''A'', 1::int), (''B'', 2)] \<subseteq> fst ` set [(''A'', 7::int)] \<and>
   fst (iterate_one (scripted [(''A'', 1), (''B'', 2)] [(''A'', 7)] [])
          (PStr ''fe'') (PStr ''pool'') (PList [''schedd'']) (PStr ''true'') (PStr ''match'')
          100 5 (PDict []) empty_world) = Inl (KeyError ''B'') \<and>
   map (\<lambda>r. map_of (req_monitors r) ''Running'')
     (new_requests empty_world (snd (iterate_one (scripted [(''A'', 1), (''B'', 2)] [(''A'', 7)] [])
          (PStr ''fe'') (PStr ''pool'') (PList [''schedd'']) (PStr ''true'') (PStr ''match'')
          100 5 (PDict []) empty_world))) = [Some 7]"
proof -
  have h1: "match_counts (scripted [(''A'', 1), (''B'', 2)] [(''A'', 7)] [])
     (PStr ''pool'') (PList [''schedd'']) (PStr ''true'') (PStr ''match'') =
     Some ([(''A'', 1), (''B'', 2)], [(''A'', 7)])"
    by (simp add: match_counts_def scripted_def)
  have h2: "\<not> fst ` set [(''A'', 1::int), (''B'', 2)] \<subseteq> fst ` set [(''A'', 7::int)]"
    by simp
  from running_count_used [OF h1, of empty_world "PStr ''fe''" 100 5 "PDict []"] h1 h2
  show ?thesis
    by (simp add: iterate_one_def scripted_def empty_world_def new_requests_def
          activity_write_def warning_write_def Let_def make_request_def)
qed


section \<open>Failures of the advertise call\<close>

text \<open>
  Claim C4. An exception raised by the advertise call for one glidein is caught and
  logged as a warning, one warning for each failing call, and the pass goes on as if the
  call had returned: the entries after it receive their advertise calls, and the pass
  ends, as with collaborators whose advertise call never fails, so that no failure of an
  advertise call makes the pass raise. In particular, when every key of the idle counts
  has a running count, every key receives its call, in order, and the pass returns
  without raising, whichever calls fail.
\<close>

theorem advertize_failure_isolated:
  assumes "match_counts col factory_pool schedd_names job_constraint match_str =
             Some (count_glideins_idle, count_glideins_running)"
  shows "warning_log (snd (iterate_one col frontend_name factory_pool schedd_names
           job_constraint match_str max_idle reserve_idle glidein_params w)) =
         warning_log w @
         map (\<lambda>r. Advertize_failed (req_request_name r) (req_min_idle r))
           (filter (\<lambda>r. advertizeWork col r \<noteq> None)
              (new_requests w (snd (iterate_one col frontend_name factory_pool schedd_names
                 job_constraint match_str max_idle reserve_idle glidein_params w)))) \<and>
         new_requests w (snd (iterate_one col frontend_name factory_pool schedd_names
           job_constraint match_str max_idle reserve_idle glidein_params w)) =
         new_requests w (snd (iterate_one (col\<lparr>advertizeWork := (\<lambda>r. None)\<rparr>) frontend_name
           factory_pool schedd_names job_constraint match_str max_idle reserve_idle
           glidein_params w)) \<and>
         fst (iterate_one col frontend_name factory_pool schedd_names
           job_constraint match_str max_idle reserve_idle glidein_params w) =
         fst (iterate_one (col\<lparr>advertizeWork := (\<lambda>r. None)\<rparr>) frontend_name
           factory_pool schedd_names job_constraint match_str max_idle reserve_idle
           glidein_params w) \<and>
         (fst ` set count_glideins_idle \<subseteq> fst ` set count_glideins_running \<longrightarrow>
            map req_glidename (new_requests w (snd (iterate_one col frontend_name factory_pool
              schedd_names job_constraint match_str max_idle reserve_idle glidein_params w))) =
            map fst count_glideins_idle \<and>
            fst (iterate_one col frontend_name factory_pool schedd_names
              job_constraint match_str max_idle reserve_idle glidein_params w) = Inr ())"
proof -
  have m: "match_counts (col\<lparr>advertizeWork := (\<lambda>r. None)\<rparr>) factory_pool schedd_names
             job_constraint match_str = Some (count_glideins_idle, count_glideins_running)"
    using assms by simp
  show ?thesis
  proof (intro conjI impI)
    show "warning_log (snd (iterate_one col frontend_name factory_pool schedd_names
           job_constraint match_str max_idle reserve_idle glidein_params w)) =
         warning_log w @
         map (\<lambda>r. Advertize_failed (req_request_name r) (req_min_idle r))
           (filter (\<lambda>r. advertizeWork col r \<noteq> None)
              (new_requests w (snd (iterate_one col frontend_name factory_pool schedd_names
                 job_constraint match_str max_idle reserve_idle glidein_params w))))"
      by (rule pass_warnings [OF assms])
    show "new_requests w (snd (iterate_one col frontend_name factory_pool schedd_names
           job_constraint match_str max_idle reserve_idle glidein_params w)) =
         new_requests w (snd (iterate_one (col\<lparr>advertizeWork := (\<lambda>r. None)\<rparr>) frontend_name
           factory_pool schedd_names job_constraint match_str max_idle reserve_idle
           glidein_params w))"
      unfolding pass_requests [OF assms] pass_requests [OF m] by (rule refl)
    show "fst (iterate_one col frontend_name factory_pool schedd_names
           job_constraint match_str max_idle reserve_idle glidein_params w) =
         fst (iterate_one (col\<lparr>advertizeWork := (\<lambda>r. None)\<rparr>) frontend_name
           factory_pool schedd_names job_constraint match_str max_idle reserve_idle
           glidein_params w)"
      unfolding pass_result [OF assms] pass_result [OF m] by (rule refl)
  next
    assume sub: "fst ` set count_glideins_idle \<subseteq> fst ` set count_glideins_running"
    show "map req_glidename (new_requests w (snd (iterate_one col frontend_name factory_pool
              schedd_names job_constraint match_str max_idle reserve_idle glidein_params w))) =
            map fst count_glideins_idle"
      unfolding pass_names [OF assms] all_counted [OF sub, THEN conjunct1] by (rule refl)
    show "fst (iterate_one col frontend_name factory_pool schedd_names
              job_constraint match_str max_idle reserve_idle glidein_params w) = Inr ()"
      unfolding pass_result [OF assms] all_counted [OF sub, THEN conjunct2] by simp
  qed
qed

theorem advertize_failure_isolated_witness:
  "match_counts (scripted [(''A'', 1), (''B'', 1)] [(''A'', 0), (''B'', 4)] [''A''])
     (PStr ''pool'') (PList [''schedd'']) (PStr ''true'') (PStr ''match'') =
     Some ([(''A'', 1), (''B'', 1)], [(''A'', 0), (''B'', 4)]) \<and>
   fst ` set [(''A'', 1::int), (''B'', 1)] \<subseteq> fst ` set [(''A'', 0::int), (''B'', 4)] \<and>
   advertizeWork (scripted [(''A'', 1), (''B'', 1)] [(''A'', 0), (''B'', 4)] [''A''])
     (make_request (PStr ''fe'') (PStr ''pool'') 100 5 (PDict []) ''A'' 1 0) =
     Some (OtherError ''simulated'') \<and>
   fst (iterate_one (scripted [(''A'', 1), (''B'', 1)] [(''A'', 0), (''B'', 4)] [''A''])
          (PStr ''fe'') (PStr ''pool'') (PList [''schedd'']) (PStr ''true'') (PStr ''match'')
          100 5 (PDict []) empty_world) = Inr () \<and>
   map req_glidename (new_requests empty_world (snd (iterate_one
          (scripted [(''A'', 1), (''B'', 1)] [(''A'', 0), (''B'', 4)] [''A''])
          (PStr ''fe'') (PStr ''pool'') (PList [''schedd'']) (PStr ''true'') (PStr ''match'')
          100 5 (PDict []) empty_world))) = [''A'', ''B''] \<and>
   warning_log (snd (iterate_one
          (scripted [(''A'', 1), (''B'', 1)] [(''A'', 0), (''B'', 4)] [''A''])
          (PStr ''fe'') (PStr ''pool'') (PList [''schedd'']) (PStr ''true'') (PStr ''match'')
          100 5 (PDict []) empty_world)) = [Advertize_failed ''A'' 6]"
proof -
  have h1: "match_counts (scripted [(''A'', 1), (''B'', 1)] [(''A'', 0), (''B'', 4)] [''A''])
     (PStr ''pool'') (PList [''schedd'']) (PStr ''true'') (PStr ''match'') =
     Some ([(''A'', 1), (''B'', 1)], [(''A'', 0), (''B'', 4)])"
    by (simp add: match_counts_def scripted_def)
  have h2: "fst ` set [(''A'', 1::int), (''B'', 1)] \<subseteq> fst ` set [(''A'', 0::int), (''B'', 4)]"
    by simp
  from advertize_failure_isolated [OF h1, of "PStr ''fe''" 100 5 "PDict []" empty_world] h1 h2
  show ?thesis
    by (simp add: iterate_one_def scripted_def empty_world_def new_requests_def
          activity_write_def warning_write_def Let_def make_request_def glidein_min_idle_def)
qed

section \<open>The keys that are advertised\<close>

text \<open>
  Claim C8 says that requests are advertised exactly for the keys of the idle counts.
  With the idle counts \<open>{A: 4, B: 2}\<close> and the running counts \<open>{A: 1, C: 9}\<close> only \<open>A\<close> is
  advertised: \<open>C\<close> is not a key of the idle counts, and the pass ends with \<^verbatim>\<open>KeyError\<close>
  at \<open>B\<close>, a key of the idle counts, before any call for it.
\<close>

theorem idle_keys_counterexample:
  "map fst [(''A'', 4::int), (''B'', 2)] = [''A'', ''B''] \<and>
   map req_glidename (advertized (snd (iterate_one
          (scripted [(''A'', 4), (''B'', 2)] [(''A'', 1), (''C'', 9)] [])
          (PStr ''fe'') (PStr ''pool'') (PList [''schedd'']) (PStr ''true'') (PStr ''match'')
          100 5 (PDict []) empty_world))) = [''A'']"
  by (simp add: iterate_one_def scripted_def empty_world_def activity_write_def
        warning_write_def make_request_def Let_def)

text \<open>
  Claim C8, amended. The requests of a pass are for the keys of the idle counts, in
  order, up to the first key that is missing from the running counts. So a name that is
  not a key of the idle counts is never advertised, whether or not it is a key of the
  running counts, and when every key of the idle counts is a key of the running counts
  the requests are exactly for the keys of the idle counts.
\<close>

theorem requests_for_idle_keys:
  assumes "match_counts col factory_pool schedd_names job_constraint match_str =
             Some (count_glideins_idle, count_glideins_running)"
  shows "map req_glidename (new_requests w (snd (iterate_one col frontend_name factory_pool
           schedd_names job_constraint match_str max_idle reserve_idle glidein_params w))) =
         takeWhile (\<lambda>k. map_of count_glideins_running k \<noteq> None)
           (map fst count_glideins_idle) \<and>
         (\<forall>r \<in> set (new_requests w (snd (iterate_one col frontend_name factory_pool
              schedd_names job_constraint match_str max_idle reserve_idle glidein_params w))).
            req_glidename r \<in> fst ` set count_glideins_idle) \<and>
         (fst ` set count_glideins_idle \<subseteq> fst ` set count_glideins_running \<longrightarrow>
            map req_glidename (new_requests w (snd (iterate_one col frontend_name factory_pool
              schedd_names job_constraint match_str max_idle reserve_idle glidein_params w))) =
            map fst count_glideins_idle)"
proof -
  let ?names = "map req_glidename (new_requests w (snd (iterate_one col frontend_name
     factory_pool schedd_names job_constraint match_str max_idle reserve_idle glidein_params w)))"
  have n: "?names = takeWhile (\<lambda>k. map_of count_glideins_running k \<noteq> None)
           (map fst count_glideins_idle)"
    by (rule pass_names [OF assms])
  have "set ?names \<subseteq> fst ` set count_glideins_idle"
    unfolding n using set_takeWhileD by fastforce
  then have s: "\<forall>r \<in> set (new_requests w (snd (iterate_one col frontend_name factory_pool
              schedd_names job_constraint match_str max_idle reserve_idle glidein_params w))).
            req_glidename r \<in> fst ` set count_glideins_idle"
    by auto
  show ?thesis
  proof (intro conjI impI)
    show "?names = takeWhile (\<lambda>k. map_of count_glideins_running k \<noteq> None)
           (map fst count_glideins_idle)"
      by (rule n)
    show "\<forall>r \<in> set (new_requests w (snd (iterate_one col frontend_name factory_pool
              schedd_names job_constraint match_str max_idle reserve_idle glidein_params w))).
            req_glidename r \<in> fst ` set count_glideins_idle"
      by (rule s)
    assume "fst ` set count_glideins_idle \<subseteq> fst ` set count_glideins_running"
    then show "?names = map fst count_glideins_idle"
      unfolding n by (simp only: all_counted [THEN conjunct1])
  qed
qed

theorem requests_for_idle_keys_witness:
  "match_counts (scripted [(''A'', 4), (''B'', 0)] [(''A'', 1), (''B'', 3), (''C'', 9)] [])
     (PStr ''pool'') (PList [''schedd'']) (PStr ''true'') (PStr ''match'') =
     Some ([(''A'', 4), (''B'', 0)], [(''A'', 1), (''B'', 3), (''C'', 9)]) \<and>
   fst ` set [(''A'', 4::int), (''B'', 0)] \<subseteq> fst ` set [(''A'', 1::int), (''B'', 3), (''C'', 9)] \<and>
   map req_glidename (new_requests empty_world (snd (iterate_one
          (scripted [(''A'', 4), (''B'', 0)] [(''A'', 1), (''B'', 3), (''C'', 9)] [])
          (PStr ''fe'') (PStr ''pool'') (PList [''schedd'']) (PStr ''true'') (PStr ''match'')
          100 5 (PDict []) empty_world))) = [''A'', ''B'']"
proof -
  have h1: "match_counts (scripted [(''A'', 4), (''B'', 0)] [(''A'', 1), (''B'', 3), (''C'', 9)] [])
     (PStr ''pool'') (PList [''schedd'']) (PStr ''true'') (PStr ''match'') =
     Some ([(''A'', 4), (''B'', 0)], [(''A'', 1), (''B'', 3), (''C'', 9)])"
    by (simp add: match_counts_def scripted_def)
  have h2: "fst ` set [(''A'', 4::int), (''B'', 0)] \<subseteq>
            fst ` set [(''A'', 1::int), (''B'', 3), (''C'', 9)]"
    by simp
  from requests_for_idle_keys [OF h1, of empty_world "PStr ''fe''" 100 5 "PDict []"] h1 h2
  show ?thesis
    by simp
qed


section \<open>The singleton lock\<close>

text \<open>
  Claim C3. When the lock file exists and is locked through another open file, the call
  of \<^verbatim>\<open>iterate\<close> raises \<^verbatim>\<open>RuntimeError\<close> "Another frontend already running" and leaves
  the world as it found it: no line is written to either log stream, no file is created
  or changed, and the content of the lock file, written by the holder, stays what it was.
\<close>

theorem second_acquisition_fails:
  assumes "files w (os_path_join dir ''glideinWMS.lock'') = Some f"
      and "locked_by f = Some holder"
  shows "iterate env (PStr dir) sleep_time frontend_name factory_pool schedd_names
           job_constraint match_str max_idle reserve_idle glidein_params w =
         Some (Inl (RuntimeError ''Another frontend already running''), w)"
  using assms by (simp add: iterate_def acquire_lock_def Let_def)

theorem second_acquisition_fails_witness:
  "files (empty_world\<lparr>files := [''/var/log/fe/glideinWMS.lock'' \<mapsto>
        \<lparr>content = lock_record 17 ''Mon'', locked_by = Some 17\<rparr>]\<rparr>)
     (os_path_join ''/var/log/fe'' ''glideinWMS.lock'') =
     Some \<lparr>content = lock_record 17 ''Mon'', locked_by = Some 17\<rparr> \<and>
   locked_by \<lparr>content = lock_record 17 ''Mon'', locked_by = Some 17\<rparr> = Some 17 \<and>
   iterate (scripted_env (\<lambda>n. scripted [(''A'', 1)] [(''A'', 0)] []) None)
     (PStr ''/var/log/fe'') 60 (PStr ''fe'') (PStr ''pool'') (PList [''schedd''])
     (PStr ''true'') (PStr ''match'') 100 5 (PDict [])
     (empty_world\<lparr>files := [''/var/log/fe/glideinWMS.lock'' \<mapsto>
        \<lparr>content = lock_record 17 ''Mon'', locked_by = Some 17\<rparr>]\<rparr>) =
     Some (Inl (RuntimeError ''Another frontend already running''),
       empty_world\<lparr>files := [''/var/log/fe/glideinWMS.lock'' \<mapsto>
        \<lparr>content = lock_record 17 ''Mon'', locked_by = Some 17\<rparr>]\<rparr>)"
proof -
  have h1: "files (empty_world\<lparr>files := [''/var/log/fe/glideinWMS.lock'' \<mapsto>
        \<lparr>content = lock_record 17 ''Mon'', locked_by = Some 17\<rparr>]\<rparr>)
     (os_path_join ''/var/log/fe'' ''glideinWMS.lock'') =
     Some \<lparr>content = lock_record 17 ''Mon'', locked_by = Some 17\<rparr>"
    by (simp add: os_path_join_def)
  have h2: "locked_by \<lparr>content = lock_record 17 ''Mon'', locked_by = Some 17\<rparr> = Some 17"
    by simp
  from second_acquisition_fails [OF h1 h2] h1 h2 show ?thesis
    by simp
qed

section \<open>The entry point\<close>

text \<open>
  Claim C9. Two runs of \<^verbatim>\<open>main\<close> that differ only in \<^verbatim>\<open>advertize_rate\<close> do the same: the
  same result and the same final world (log lines, advertise calls, retractions, files),
  or both run for ever.
\<close>

theorem advertize_rate_unused:
  "main execfile env sleep_time advertize_rate config_file w =
   main execfile env sleep_time advertize_rate' config_file w"
  by (simp add: main_def)

text \<open>
  Claim C10. Whatever the configuration holds, \<^verbatim>\<open>main\<close> calls \<^verbatim>\<open>iterate\<close> with
  \<^verbatim>\<open>max_idle = 100\<close> and \<^verbatim>\<open>reserve_idle = 5\<close>: when the configuration provides the seven
  keys that \<^verbatim>\<open>main\<close> reads, the run is that call, with the poll period of the command
  line and the seven values, whatever other keys the configuration has; and in every
  case \<^verbatim>\<open>main\<close> either raises before the call, leaving the world untouched, or is such
  a call.
\<close>

theorem main_constants:
  "(execfile config_file = Inr config_dict \<and>
    map_of config_dict ''log_dir'' = Some log_dir \<and>
    map_of config_dict ''frontend_name'' = Some frontend_name \<and>
    map_of config_dict ''factory_pool'' = Some factory_pool \<and>
    map_of config_dict ''schedd_names'' = Some schedd_names \<and>
    map_of config_dict ''job_constraint'' = Some job_constraint \<and>
    map_of config_dict ''match_string'' = Some match_string \<and>
    map_of config_dict ''glidein_params'' = Some glidein_params \<longrightarrow>
    main execfile env sleep_time advertize_rate config_file w =
      iterate env log_dir sleep_time frontend_name factory_pool schedd_names
        job_constraint match_string 100 5 glidein_params w) \<and>
   ((\<exists>e. main execfile env sleep_time advertize_rate config_file w = Some (Inl e, w)) \<or>
    (\<exists>log_dir frontend_name factory_pool schedd_names job_constraint match_string
        glidein_params.
       main execfile env sleep_time advertize_rate config_file w =
         iterate env log_dir sleep_time frontend_name factory_pool schedd_names
           job_constraint match_string 100 5 glidein_params w))"
proof (intro conjI impI)
  assume "execfile config_file = Inr config_dict \<and>
    map_of config_dict ''log_dir'' = Some log_dir \<and>
    map_of config_dict ''frontend_name'' = Some frontend_name \<and>
    map_of config_dict ''factory_pool'' = Some factory_pool \<and>
    map_of config_dict ''schedd_names'' = Some schedd_names \<and>
    map_of config_dict ''job_constraint'' = Some job_constraint \<and>
    map_of config_dict ''match_string'' = Some match_string \<and>
    map_of config_dict ''glidein_params'' = Some glidein_params"
  then show "main execfile env sleep_time advertize_rate config_file w =
      iterate env log_dir sleep_time frontend_name factory_pool schedd_names
        job_constraint match_string 100 5 glidein_params w"
    by (simp add: main_def subscript_def)
next
  show "(\<exists>e. main execfile env sleep_time advertize_rate config_file w = Some (Inl e, w)) \<or>
    (\<exists>log_dir frontend_name factory_pool schedd_names job_constraint match_string
        glidein_params.
       main execfile env sleep_time advertize_rate config_file w =
         iterate env log_dir sleep_time frontend_name factory_pool schedd_names
           job_constraint match_string 100 5 glidein_params w)"
    unfolding main_def subscript_def
    by (simp split: sum.splits option.splits) blast
qed

theorem main_constants_witness:
  "(\<lambda>f. Inr [(''max_idle'', PInt 7), (''log_dir'', PStr ''/var/log/fe''),
       (''frontend_name'', PStr ''fe''), (''factory_pool'', PStr ''pool''),
       (''schedd_names'', PList [''schedd'']), (''job_constraint'', PStr ''true''),
       (''match_string'', PStr ''match''), (''glidein_params'', PDict []),
       (''reserve_idle'', PInt 0)]) ''frontend.cfg'' =
     (Inr [(''max_idle'', PInt 7), (''log_dir'', PStr ''/var/log/fe''),
       (''frontend_name'', PStr ''fe''), (''factory_pool'', PStr ''pool''),
       (''schedd_names'', PList [''schedd'']), (''job_constraint'', PStr ''true''),
       (''match_string'', PStr ''match''), (''glidein_params'', PDict []),
       (''reserve_idle'', PInt 0)] :: exn + (string \<times> pyval) list) \<and>
   main (\<lambda>f. Inr [(''max_idle'', PInt 7), (''log_dir'', PStr ''/var/log/fe''),
       (''frontend_name'', PStr ''fe''), (''factory_pool'', PStr ''pool''),
       (''schedd_names'', PList [''schedd'']), (''job_constraint'', PStr ''true''),
       (''match_string'', PStr ''match''), (''glidein_params'', PDict []),
       (''reserve_idle'', PInt 0)])
     (scripted_env (\<lambda>n. raising KeyboardInterrupt) None) 60 3 ''frontend.cfg'' empty_world =
   iterate (scripted_env (\<lambda>n. raising KeyboardInterrupt) None) (PStr ''/var/log/fe'') 60
     (PStr ''fe'') (PStr ''pool'') (PList [''schedd'']) (PStr ''true'') (PStr ''match'')
     100 5 (PDict []) empty_world"
  using main_constants [of
      "\<lambda>f. Inr [(''max_idle'', PInt 7), (''log_dir'', PStr ''/var/log/fe''),
       (''frontend_name'', PStr ''fe''), (''factory_pool'', PStr ''pool''),
       (''schedd_names'', PList [''schedd'']), (''job_constraint'', PStr ''true''),
       (''match_string'', PStr ''match''), (''glidein_params'', PDict []),
       (''reserve_idle'', PInt 0)]"
      "''frontend.cfg''"
      "[(''max_idle'', PInt 7), (''log_dir'', PStr ''/var/log/fe''),
       (''frontend_name'', PStr ''fe''), (''factory_pool'', PStr ''pool''),
       (''schedd_names'', PList [''schedd'']), (''job_constraint'', PStr ''true''),
       (''match_string'', PStr ''match''), (''glidein_params'', PDict []),
       (''reserve_idle'', PInt 0)]"
      "PStr ''/var/log/fe''" "PStr ''fe''" "PStr ''pool''" "PList [''schedd'']"
      "PStr ''true''" "PStr ''match''" "PDict []"
      "scripted_env (\<lambda>n. raising KeyboardInterrupt) None" 60 3 empty_world]
  by simp


section \<open>The failure policy of the loop\<close>

text \<open>
  Claim C5. Let a pass raise an exception \<open>e\<close> other than \<^verbatim>\<open>KeyboardInterrupt\<close>. If it is
  the first pass of a run whose startup passed (the lock could be taken), \<^verbatim>\<open>iterate\<close> ends by raising \<open>e\<close> again,
  after the teardown: the exception is in the warning log and the retraction has been
  called. If it is a later pass (the loop runs every pass but the first with
  \<^verbatim>\<open>is_first = 0\<close>) and the sleep that follows returns, the round ends normally with the
  exception in the warning log, and the loop goes on with the next pass.
\<close>

theorem first_pass_fatal_later_tolerated:
  assumes "e \<noteq> KeyboardInterrupt"
      and "fst (iterate_one (collab env n) frontend_name factory_pool schedd_names
             job_constraint match_str max_idle reserve_idle glidein_params w0) = Inl e"
  shows "(n = 0 \<and> lock_free w (os_path_join dir ''glideinWMS.lock'') \<longrightarrow>
            (\<exists>w'. iterate env (PStr dir) sleep_time frontend_name factory_pool schedd_names
                     job_constraint match_str max_idle reserve_idle glidein_params w =
                   Some (Inl e, w') \<and>
                 deadvertized w' = deadvertized w @ [(factory_pool, frontend_name)] \<and>
                 (\<exists>t. Exception_at t e \<in> set (warning_log w')))) \<and>
         (sleep env n sleep_time = None \<longrightarrow>
            (\<exists>w'. loop_body env sleep_time frontend_name factory_pool schedd_names
                     job_constraint match_str max_idle reserve_idle glidein_params n False w =
                   (Inr (), w') \<and>
                 (\<exists>t. Exception_at t e \<in> set (warning_log w')) \<and>
                 while_1 (loop_body env sleep_time frontend_name factory_pool schedd_names
                            job_constraint match_str max_idle reserve_idle glidein_params)
                   n False w =
                 while_1 (loop_body env sleep_time frontend_name factory_pool schedd_names
                            job_constraint match_str max_idle reserve_idle glidein_params)
                   (Suc n) False w'))"
proof (intro conjI impI)
  assume a: "n = 0 \<and> lock_free w (os_path_join dir ''glideinWMS.lock'')"
  let ?lock = "os_path_join dir ''glideinWMS.lock''"
  let ?body = "loop_body env sleep_time frontend_name factory_pool schedd_names
                 job_constraint match_str max_idle reserve_idle glidein_params"
  let ?w1 = "activity_write Starting_up (snd (acquire_lock env ?lock w))"
  let ?w2 = "snd (iterate_one (collab env 0) frontend_name factory_pool schedd_names
             job_constraint match_str max_idle reserve_idle glidein_params
             (activity_write (Iteration_at (now env ?w1)) (tick ?w1)))"
  let ?w3 = "snd (shutdown env frontend_name factory_pool ?lock e ?w2)"
  from a have n: "n = 0" and free: "lock_free w ?lock" by simp_all
  have b: "?body 0 True ?w1 = (Inl e, ?w2)"
    using loop_body_first_raise [OF assms(2) [unfolded n]] .
  have run: "while_1 ?body 0 True ?w1 = Some (e, ?w2)"
    by (rule while_1_leave) (rule b)
  have it: "iterate env (PStr dir) sleep_time frontend_name factory_pool schedd_names
              job_constraint match_str max_idle reserve_idle glidein_params w =
            Some (shutdown env frontend_name factory_pool ?lock e ?w2)"
    unfolding iterate_started [OF free] run by simp
  have r: "shutdown env frontend_name factory_pool ?lock e ?w2 = (Inl e, ?w3)"
    using shutdown_result [of env frontend_name factory_pool ?lock e ?w2] assms(1)
    by (simp add: prod_eq_iff)
  have d2: "deadvertized ?w2 = deadvertized w"
    using acquire_lock_free [OF free, of env]
    by (simp add: iterate_one_deadvertized activity_write_def tick_def)
  have d: "deadvertized ?w3 = deadvertized w @ [(factory_pool, frontend_name)]"
    by (simp only: shutdown_deadvertized d2)
  have x: "Exception_at (now env ?w2) e \<in> set (warning_log ?w3)"
    by (rule shutdown_fatal_warning [OF assms(1)])
  show "\<exists>w'. iterate env (PStr dir) sleep_time frontend_name factory_pool schedd_names
                     job_constraint match_str max_idle reserve_idle glidein_params w =
                   Some (Inl e, w') \<and>
                 deadvertized w' = deadvertized w @ [(factory_pool, frontend_name)] \<and>
                 (\<exists>t. Exception_at t e \<in> set (warning_log w'))"
    using it r d x by (intro exI [of _ ?w3]) (simp, blast)
next
  assume s: "sleep env n sleep_time = None"
  let ?body = "loop_body env sleep_time frontend_name factory_pool schedd_names
                 job_constraint match_str max_idle reserve_idle glidein_params"
  let ?w2 = "snd (iterate_one (collab env n) frontend_name factory_pool schedd_names
             job_constraint match_str max_idle reserve_idle glidein_params
             (activity_write (Iteration_at (now env w)) (tick w)))"
  let ?w' = "activity_write Sleep (warning_write (Exception_at (now env ?w2) e) (tick ?w2))"
  have b: "?body n False w = (Inr (), ?w')"
    by (rule loop_body_later_raise [OF assms(2,1) s])
  have x: "Exception_at (now env ?w2) e \<in> set (warning_log ?w')"
    by (simp add: activity_write_def warning_write_def)
  have c: "while_1 ?body n False w = while_1 ?body (Suc n) False ?w'"
    by (rule while_1_round) (rule b)
  show "\<exists>w'. ?body n False w = (Inr (), w') \<and>
                 (\<exists>t. Exception_at t e \<in> set (warning_log w')) \<and>
                 while_1 ?body n False w = while_1 ?body (Suc n) False w'"
    using b x c by blast
qed

theorem first_pass_fatal_later_tolerated_witness:
  "OtherError ''boom'' \<noteq> KeyboardInterrupt \<and>
   fst (iterate_one (collab (scripted_env (\<lambda>n. raising (OtherError ''boom'')) None) 0)
          (PStr ''fe'') (PStr ''pool'') (PList [''schedd'']) (PStr ''true'') (PStr ''match'')
          100 5 (PDict []) empty_world) = Inl (OtherError ''boom'') \<and>
   lock_free empty_world (os_path_join ''/var/log/fe'' ''glideinWMS.lock'') \<and>
   map_option (\<lambda>x. (fst x, deadvertized (snd x)))
     (iterate (scripted_env (\<lambda>n. raising (OtherError ''boom'')) None)
        (PStr ''/var/log/fe'') 60 (PStr ''fe'') (PStr ''pool'') (PList [''schedd''])
        (PStr ''true'') (PStr ''match'') 100 5 (PDict []) empty_world) =
     Some (Inl (OtherError ''boom''), [(PStr ''pool'', PStr ''fe'')]) \<and>
   sleep (scripted_env (\<lambda>n. if n = 0 then scripted [(''A'', 1)] [(''A'', 0)] []
                      else if n = 1 then raising (OtherError ''boom'')
                      else raising KeyboardInterrupt) None) 1 60 = None \<and>
   fst (loop_body (scripted_env (\<lambda>n. if n = 0 then scripted [(''A'', 1)] [(''A'', 0)] []
                      else if n = 1 then raising (OtherError ''boom'')
                      else raising KeyboardInterrupt) None)
          60 (PStr ''fe'') (PStr ''pool'') (PList [''schedd'']) (PStr ''true'') (PStr ''match'')
          100 5 (PDict []) 1 False empty_world) = Inr () \<and>
   map_option (\<lambda>x. (fst x, activity_log (snd x), warning_log (snd x)))
     (iterate (scripted_env (\<lambda>n. if n = 0 then scripted [(''A'', 1)] [(''A'', 0)] []
                      else if n = 1 then raising (OtherError ''boom'')
                      else raising KeyboardInterrupt) None)
        (PStr ''/var/log/fe'') 60 (PStr ''fe'') (PStr ''pool'') (PList [''schedd''])
        (PStr ''true'') (PStr ''match'') 100 5 (PDict []) empty_world) =
     Some (Inr (),
       [Starting_up, Iteration_at ''now'', Match, Advertize ''A'' 6, Sleep,
        Iteration_at ''now'', Sleep, Iteration_at ''now'', Received_signal_exit,
        Deadvertize_my_ads],
       [Exception_at ''now'' (OtherError ''boom'')])"
proof -
  let ?env = "scripted_env (\<lambda>n. raising (OtherError ''boom'')) None"
  have h1: "OtherError ''boom'' \<noteq> KeyboardInterrupt" by simp
  have h2: "fst (iterate_one (collab ?env 0)
          (PStr ''fe'') (PStr ''pool'') (PList [''schedd'']) (PStr ''true'') (PStr ''match'')
          100 5 (PDict []) empty_world) = Inl (OtherError ''boom'')"
    by (simp add: scripted_env_def raising_def iterate_one_def)
  have h3: "lock_free empty_world (os_path_join ''/var/log/fe'' ''glideinWMS.lock'')"
    by (simp add: lock_free_def empty_world_def)
  have fatal: "map_option (\<lambda>x. (fst x, deadvertized (snd x)))
     (iterate ?env (PStr ''/var/log/fe'') 60 (PStr ''fe'') (PStr ''pool'') (PList [''schedd''])
        (PStr ''true'') (PStr ''match'') 100 5 (PDict []) empty_world) =
     Some (Inl (OtherError ''boom''), [(PStr ''pool'', PStr ''fe'')])"
    using first_pass_fatal_later_tolerated [OF h1 h2, of empty_world "''/var/log/fe''" 60] h3
    by (auto simp: empty_world_def)
  let ?env3 = "scripted_env (\<lambda>n. if n = 0 then scripted [(''A'', 1)] [(''A'', 0)] []
                      else if n = 1 then raising (OtherError ''boom'')
                      else raising KeyboardInterrupt) None"
  have h4: "fst (iterate_one (collab ?env3 1)
          (PStr ''fe'') (PStr ''pool'') (PList [''schedd'']) (PStr ''true'') (PStr ''match'')
          100 5 (PDict []) empty_world) = Inl (OtherError ''boom'')"
    by (simp add: scripted_env_def raising_def iterate_one_def)
  have h5: "sleep ?env3 1 60 = None"
    by (simp add: scripted_env_def)
  have round: "fst (loop_body ?env3
          60 (PStr ''fe'') (PStr ''pool'') (PList [''schedd'']) (PStr ''true'') (PStr ''match'')
          100 5 (PDict []) 1 False empty_world) = Inr ()"
    using first_pass_fatal_later_tolerated [OF h1 h4, where sleep_time = 60 and w = empty_world]
      h5
    by auto
  have later: "sleep (scripted_env (\<lambda>n. if n = 0 then scripted [(''A'', 1)] [(''A'', 0)] []
                      else if n = 1 then raising (OtherError ''boom'')
                      else raising KeyboardInterrupt) None) 1 60 = None \<and>
   map_option (\<lambda>x. (fst x, activity_log (snd x), warning_log (snd x)))
     (iterate (scripted_env (\<lambda>n. if n = 0 then scripted [(''A'', 1)] [(''A'', 0)] []
                      else if n = 1 then raising (OtherError ''boom'')
                      else raising KeyboardInterrupt) None)
        (PStr ''/var/log/fe'') 60 (PStr ''fe'') (PStr ''pool'') (PList [''schedd''])
        (PStr ''true'') (PStr ''match'') 100 5 (PDict []) empty_world) =
     Some (Inr (),
       [Starting_up, Iteration_at ''now'', Match, Advertize ''A'' 6, Sleep,
        Iteration_at ''now'', Sleep, Iteration_at ''now'', Received_signal_exit,
        Deadvertize_my_ads],
       [Exception_at ''now'' (OtherError ''boom'')])"
    by (simp add: run_defs while_1.simps)
  from h1 h2 h3 fatal round later show ?thesis by blast
qed

section \<open>The teardown\<close>

text \<open>
  Claim C6. Every run of \<^verbatim>\<open>iterate\<close> that passes the startup (the lock can be taken) and
  ends, by the shutdown signal or by a fatal exception, has called
  \<^verbatim>\<open>deadvertizeAllWork\<close> exactly once, for its pool and frontend name. A failure of that
  call is swallowed: the run ends with the same result as with a retraction that
  succeeds, and the failure is written to the warning log.
\<close>

theorem retract_all_once:
  assumes "lock_free w (os_path_join dir ''glideinWMS.lock'')"
      and "iterate env (PStr dir) sleep_time frontend_name factory_pool schedd_names
             job_constraint match_str max_idle reserve_idle glidein_params w = Some (r, w')"
  shows "deadvertized w' = deadvertized w @ [(factory_pool, frontend_name)] \<and>
         (\<exists>w''. iterate (env\<lparr>deadvertizeAllWork := (\<lambda>pool name. None)\<rparr>) (PStr dir) sleep_time
                   frontend_name factory_pool schedd_names job_constraint match_str max_idle
                   reserve_idle glidein_params w = Some (r, w'')) \<and>
         (deadvertizeAllWork env factory_pool frontend_name \<noteq> None \<longrightarrow>
            Failed_to_deadvertize \<in> set (warning_log w'))"
proof -
  let ?lock = "os_path_join dir ''glideinWMS.lock''"
  let ?body = "loop_body env sleep_time frontend_name factory_pool schedd_names
                 job_constraint match_str max_idle reserve_idle glidein_params"
  let ?w1 = "activity_write Starting_up (snd (acquire_lock env ?lock w))"
  let ?env' = "env\<lparr>deadvertizeAllWork := (\<lambda>pool name. None)\<rparr>"
  have free': "lock_free w ?lock" by (rule assms(1))
  from assms(2) obtain e w2 where
    run: "while_1 ?body 0 True ?w1 = Some (e, w2)"
    and sh: "shutdown env frontend_name factory_pool ?lock e w2 = (r, w')"
    unfolding iterate_started [OF assms(1)]
    by (auto split: option.splits)
  have d1: "deadvertized ?w1 = deadvertized w"
    using acquire_lock_free [OF assms(1), of env] by (simp add: activity_write_def)
  have "deadvertized w2 = deadvertized w"
    by (rule while_1_invariant [OF run, where P = "\<lambda>v. deadvertized v = deadvertized w"])
       (simp_all add: loop_body_deadvertized d1)
  then have d: "deadvertized w' = deadvertized w @ [(factory_pool, frontend_name)]"
    using shutdown_deadvertized [of env frontend_name factory_pool ?lock e w2] sh by simp
  have r: "r = (if e = KeyboardInterrupt then Inr () else Inl e)"
    using shutdown_result [of env frontend_name factory_pool ?lock e w2] sh by simp
  have "iterate ?env' (PStr dir) sleep_time frontend_name factory_pool schedd_names
          job_constraint match_str max_idle reserve_idle glidein_params w =
        Some (shutdown ?env' frontend_name factory_pool ?lock e w2)"
    unfolding iterate_started [OF free'] using run by simp
  moreover have "fst (shutdown ?env' frontend_name factory_pool ?lock e w2) = r"
    unfolding r by (rule shutdown_result)
  ultimately have s: "\<exists>w''. iterate ?env' (PStr dir) sleep_time frontend_name factory_pool
          schedd_names job_constraint match_str max_idle reserve_idle glidein_params w =
        Some (r, w'')"
    by (metis prod.collapse)
  have f: "deadvertizeAllWork env factory_pool frontend_name \<noteq> None \<longrightarrow>
            Failed_to_deadvertize \<in> set (warning_log w')"
    using shutdown_failed_warning [of env factory_pool frontend_name ?lock e w2] sh
    by auto
  from d s f show ?thesis by blast
qed

theorem retract_all_once_witness:
  "lock_free empty_world (os_path_join ''/var/log/fe'' ''glideinWMS.lock'') \<and>
   map_option (\<lambda>x. (fst x, deadvertized (snd x), warning_log (snd x)))
     (iterate (scripted_env (\<lambda>n. raising KeyboardInterrupt) (Some (OtherError ''condor'')))
        (PStr ''/var/log/fe'') 60 (PStr ''fe'') (PStr ''pool'') (PList [''schedd''])
        (PStr ''true'') (PStr ''match'') 100 5 (PDict []) empty_world) =
     Some (Inr (), [(PStr ''pool'', PStr ''fe'')],
       [Failed_to_deadvertize, Exception_at ''now'' (OtherError ''condor'')])"
proof -
  let ?env = "scripted_env (\<lambda>n. raising KeyboardInterrupt) (Some (OtherError ''condor''))"
  let ?run = "iterate ?env (PStr ''/var/log/fe'') 60 (PStr ''fe'') (PStr ''pool'')
     (PList [''schedd'']) (PStr ''true'') (PStr ''match'') 100 5 (PDict []) empty_world"
  have h1: "lock_free empty_world (os_path_join ''/var/log/fe'' ''glideinWMS.lock'')"
    by (simp add: lock_free_def empty_world_def)
  have ev: "map_option (\<lambda>x. (fst x, warning_log (snd x))) ?run =
     Some (Inr (), [Failed_to_deadvertize, Exception_at ''now'' (OtherError ''condor'')])"
    by (simp add: run_defs while_1.simps)
  then obtain r w' where h2: "?run = Some (r, w')"
    by (cases ?run) auto
  from retract_all_once [OF h1 h2]
  have "deadvertized w' = deadvertized empty_world @ [(PStr ''pool'', PStr ''fe'')]"
    by blast
  with ev h2 h1 show ?thesis
    by (simp add: empty_world_def)
qed

end
